theory Spec2Isabelle
  imports Complex_Main
begin

section \<open>Shared conventions\<close>

text \<open>
  The C++ of \<^verbatim>\<open>src/src/spatialSEIRModel.cpp\<close> is embedded function by function.
  \<^item> \<^verbatim>\<open>Rcpp::stop\<close> throws; it is the value \<open>Inl (ConfigurationError msg)\<close>.
  \<^item> Reading or writing a vector or matrix outside its bounds (undefined behaviour in
    C++) is the value \<open>Inl IndexOutOfRange\<close>.
  \<^item> \<^verbatim>\<open>double\<close> is idealised as \<open>real\<close>: no rounding, no infinities, no NaN. A
    quotient \<open>1 / b\<close> is the real quotient, which is \<open>0\<close> for \<open>b = 0\<close> where the
    C++ gives an infinity; no property below depends on the value of such a quotient.
  \<^item> \<^verbatim>\<open>int\<close> fields are \<open>int\<close>: the code modelled here stores and compares them,
    and the only arithmetic on them, the two seeds \<open>random_seed + 1\<close> and
    \<open>random_seed + ncalls\<close> of the constructor, is taken without overflow. Sizes and
    loop counters are \<open>nat\<close>.
\<close>

datatype error = ConfigurationError string | IndexOutOfRange

definition bindE :: "error + 'a \<Rightarrow> ('a \<Rightarrow> error + 'b) \<Rightarrow> error + 'b" where
  "bindE m f = (case m of Inl e \<Rightarrow> Inl e | Inr x \<Rightarrow> f x)"

definition is_ConfigurationError :: "error + 'a \<Rightarrow> bool" where
  "is_ConfigurationError r = (case r of Inl (ConfigurationError msg) \<Rightarrow> True | _ \<Rightarrow> False)"

text \<open>
  The preprocessor constants come from headers that are not part of the source at hand;
  they are parameters of the model. \<open>SPATIALSEIR_SINGLETHREAD\<close> is the build flag
  tested by \<^verbatim>\<open>#ifdef\<close>.
\<close>

record macros =
  LSS_DATA_MODEL_TYPE :: int
  LSS_EXPOSURE_MODEL_TYPE :: int
  LSS_REINFECTION_MODEL_TYPE :: int
  LSS_DISTANCE_MODEL_TYPE :: int
  LSS_TRANSITION_MODEL_TYPE :: int
  LSS_INIT_CONTAINER_TYPE :: int
  LSS_SAMPLING_CONTROL_MODEL_TYPE :: int
  ALG_BasicABC :: int
  ALG_ModifiedBeaumont2009 :: int
  ALG_DelMoral2012 :: int
  SPATIALSEIR_SINGLETHREAD :: bool

section \<open>samplingControl\<close>

text \<open>
  The member \<open>prot\<close> is read by the destructor and assigned nowhere in the source at
  hand; the constructor receives the value it starts with as \<open>prot0\<close>.
\<close>

record samplingControl =
  simulation_width :: int
  random_seed :: int
  CPU_cores :: int
  algorithm :: int
  batch_size :: int
  epochs :: int
  max_batches :: int
  multivariatePerturbation :: bool
  m :: int
  accept_fraction :: real
  shrinkage :: real
  target_eps :: real
  prot :: int

text \<open>
  \<^verbatim>\<open>samplingControl::samplingControl(SEXP, SEXP)\<close>. The result carries the warnings
  issued on the way; an error leaves no object.
\<close>

definition samplingControl_ctor ::
  "macros \<Rightarrow> int \<Rightarrow> int list \<Rightarrow> real list \<Rightarrow> error + (samplingControl \<times> string list)" where
  "samplingControl_ctor K prot0 inIntegerParams inNumericParams =
    (if length inIntegerParams \<noteq> 9 \<or> length inNumericParams \<noteq> 3
     then Inl (ConfigurationError ''Exactly 12 samplingControl parameters are required.'')
     else
       let this = \<lparr> simulation_width = inIntegerParams ! 0,
                    random_seed = inIntegerParams ! 1,
                    CPU_cores = inIntegerParams ! 2,
                    algorithm = inIntegerParams ! 3,
                    batch_size = inIntegerParams ! 4,
                    epochs = inIntegerParams ! 5,
                    max_batches = inIntegerParams ! 6,
                    multivariatePerturbation = (inIntegerParams ! 7 \<noteq> 0),
                    m = inIntegerParams ! 8,
                    accept_fraction = inNumericParams ! 0,
                    shrinkage = inNumericParams ! 1,
                    target_eps = inNumericParams ! 2,
                    prot = prot0 \<rparr>;
           warnings =
             (if SPATIALSEIR_SINGLETHREAD K \<and> CPU_cores this > 1
              then [''Multiple cores requested for ABSEIR compiled in single thread mode'']
              else [])
       in
         if algorithm this \<noteq> ALG_BasicABC K \<and>
            algorithm this \<noteq> ALG_ModifiedBeaumont2009 K \<and>
            algorithm this \<noteq> ALG_DelMoral2012 K
         then Inl (ConfigurationError
           ''Algorithm specification must be of length 1 and equal to 1 or 2 or 3.'')
         else if max_batches this \<le> 0
         then Inl (ConfigurationError ''max_batches must be greater than zero.'')
         else Inr (this, warnings))"

text \<open>\<^verbatim>\<open>samplingControl::~samplingControl()\<close>.\<close>

definition samplingControl_dtor :: "samplingControl \<Rightarrow> error + unit" where
  "samplingControl_dtor this =
    (if prot this \<noteq> 0
     then Inl (ConfigurationError ''can't delete samplingControl, still being used.'')
     else Inr ())"

text \<open>
  \<^verbatim>\<open>samplingControl::getModelComponentType()\<close>, in state-passing form: the value returned
  and the object afterwards.
\<close>

definition samplingControl_getModelComponentType ::
  "macros \<Rightarrow> samplingControl \<Rightarrow> int \<times> samplingControl" where
  "samplingControl_getModelComponentType K this = (LSS_SAMPLING_CONTROL_MODEL_TYPE K, this)"

text \<open>The three conditions of the constructor, as the specification lists them.\<close>

definition wrong_block_lengths :: "int list \<Rightarrow> real list \<Rightarrow> bool" where
  "wrong_block_lengths ip np = (length ip \<noteq> 9 \<or> length np \<noteq> 3)"

definition invalid_algorithm_code :: "macros \<Rightarrow> int \<Rightarrow> bool" where
  "invalid_algorithm_code K a =
     (a \<notin> {ALG_BasicABC K, ALG_ModifiedBeaumont2009 K, ALG_DelMoral2012 K})"

section \<open>Model components\<close>

text \<open>
  The component classes are declared in headers outside the source at hand. Each record
  holds the members that \<^verbatim>\<open>spatialSEIRModel.cpp\<close> reads; \<open>componentType\<close> is what the
  component's \<^verbatim>\<open>getModelComponentType()\<close> returns. A matrix of which only the
  dimensions are read is a \<open>shape\<close>. The hyperparameter matrices are stored by column.
\<close>

record shape =
  rows :: nat
  cols :: nat

type_synonym dmat = "real list list"

record dataModel =
  dm_componentType :: int
  dm_nLoc :: int
  dm_nTpt :: int
  Y :: shape

record exposureModel =
  em_componentType :: int
  em_nLoc :: int
  em_nTpt :: int
  X :: shape
  em_betaPriorMean :: "real list"
  em_betaPriorPrecision :: "real list"

record reinfectionModel =
  rm_componentType :: int
  reinfectionMode :: int
  X_rs :: shape
  rm_betaPriorMean :: "real list"
  rm_betaPriorPrecision :: "real list"

record distanceModel =
  dist_componentType :: int
  numLocations :: int
  dm_list :: "dmat list"
  tdm_list :: "dmat list list"
  spatial_prior :: "real list"

record transitionPriors =
  tp_componentType :: int
  mode :: string
  E_to_I_params :: "real list list"
  I_to_R_params :: "real list list"

record initialValueContainer =
  ivc_componentType :: int
  S0 :: "int list"

text \<open>Bounds-checked element access: \<^verbatim>\<open>v(i)\<close>, \<^verbatim>\<open>M.col(j)\<close>, \<^verbatim>\<open>M(r, c)\<close>.\<close>

definition vec_at :: "'a list \<Rightarrow> nat \<Rightarrow> error + 'a" where
  "vec_at v i = (if i < length v then Inr (v ! i) else Inl IndexOutOfRange)"

definition col :: "real list list \<Rightarrow> nat \<Rightarrow> error + real list" where
  "col M j = vec_at M j"

definition mat_at :: "real list list \<Rightarrow> nat \<Rightarrow> nat \<Rightarrow> error + real" where
  "mat_at M r c = bindE (col M c) (\<lambda>cl. vec_at cl r)"

text \<open>\<^verbatim>\<open>std::to_string\<close> on an integer, used in the error messages.\<close>

definition newline :: string where
  "newline = [CHR 0x0A]"

definition digit_char :: "nat \<Rightarrow> char" where
  "digit_char d = ''0123456789'' ! d"

function nat_to_string :: "nat \<Rightarrow> string" where
  "nat_to_string n =
     (if n < 10 then [digit_char n] else nat_to_string (n div 10) @ [digit_char (n mod 10)])"
  by pat_completeness auto
termination
  by (relation "measure (\<lambda>n. n)") auto

definition to_string :: "int \<Rightarrow> string" where
  "to_string i = (if i < 0 then ''-'' @ nat_to_string (nat (- i)) else nat_to_string (nat i))"

section \<open>The orchestrator object\<close>

text \<open>
  \<open>weibullTransitionDistribution\<close>, \<open>NodePool\<close>, the random generator and the
  distributions of \<^verbatim>\<open><random>\<close> are defined outside the source at hand. A transition
  distribution is the vector it was built from; a node pool is the scalar arguments it
  was built with (its other arguments are the shared arrays of the components). The
  generator state is a type parameter \<open>'g\<close>; \<open>seed_generator\<close> is the two-stage
  seeding of the constructor and \<open>draw\<close> is one call \<^verbatim>\<open>distr(*generator)\<close>, returning the
  value drawn and the generator afterwards; whatever a distribution object keeps between
  calls counts as part of the generator state.
\<close>

datatype weibullTransitionDistribution = WeibullTransitionDistribution "real list"

record NodePool =
  np_CPU_cores :: nat
  np_random_seed :: int
  np_m :: int

datatype distribution = normal_distribution real real | gamma_distribution real real

record 'g stdlib =
  seed_generator :: "int \<Rightarrow> 'g"
  draw :: "distribution \<Rightarrow> 'g \<Rightarrow> real \<times> 'g"

text \<open>
  A matrix of doubles with its dimensions; a cell that was never written holds no value
  (\<^verbatim>\<open>Eigen::MatrixXd(r, c)\<close> does not initialise its cells).
\<close>

record matrix =
  nrows :: nat
  ncols :: nat
  cell :: "nat \<Rightarrow> nat \<Rightarrow> real option"

definition uninitialized_matrix :: "nat \<Rightarrow> nat \<Rightarrow> matrix" where
  "uninitialized_matrix r c = \<lparr> nrows = r, ncols = c, cell = (\<lambda>i j. None) \<rparr>"

definition zero_matrix :: "nat \<Rightarrow> nat \<Rightarrow> matrix" where
  "zero_matrix r c =
     \<lparr> nrows = r, ncols = c, cell = (\<lambda>i j. if i < r \<and> j < c then Some 0 else None) \<rparr>"

definition write_cell :: "matrix \<Rightarrow> nat \<Rightarrow> nat \<Rightarrow> real \<Rightarrow> error + matrix" where
  "write_cell M i j v =
     (if i < nrows M \<and> j < ncols M
      then Inr (M\<lparr> cell := (cell M)(i := (cell M i)(j := Some v)) \<rparr>)
      else Inl IndexOutOfRange)"

type_synonym simulationResultSet = "real list"

text \<open>
  The members of \<^verbatim>\<open>spatialSEIRModel\<close>. The component pointers are the components
  themselves (nothing in the source writes through them). \<open>ncalls\<close>, \<open>result_idx\<close>,
  \<open>hasReinfection\<close>, \<open>hasSpatial\<close>, \<open>transitionMode\<close> and \<open>N\<close> are identifiers that
  member functions read and that no function of the source declares or assigns: they
  are members whose values the constructor leaves as they were. The last four carry
  the prefix \<open>member_\<close>, because other member functions declare locals of the same
  names.
\<close>

record 'g spatialSEIRModel =
  dataModelInstance :: dataModel
  exposureModelInstance :: exposureModel
  reinfectionModelInstance :: reinfectionModel
  distanceModelInstance :: distanceModel
  transitionPriorsInstance :: transitionPriors
  initialValueContainerInstance :: initialValueContainer
  samplingControlInstance :: samplingControl
  EI_transition_dist :: weibullTransitionDistribution
  IR_transition_dist :: weibullTransitionDistribution
  generator :: 'g
  is_initialized :: bool
  param_matrix :: matrix
  results_complete :: "simulationResultSet list"
  results_double :: matrix
  result_idx :: "int list"
  ncalls :: int
  worker_pool :: NodePool
  member_hasReinfection :: bool
  member_hasSpatial :: bool
  member_transitionMode :: string
  member_N :: nat

text \<open>The values of the members that the constructor does not assign.\<close>

record unassigned =
  u_param_matrix :: matrix
  u_result_idx :: "int list"
  u_ncalls :: int
  u_hasReinfection :: bool
  u_hasSpatial :: bool
  u_transitionMode :: string
  u_N :: nat

section \<open>The constructor\<close>

text \<open>
  The constructor runs in two parts. \<open>validate\<close> is everything up to the check of the
  transition mode: the type check of the seven handles and the compatibility checks, in
  the order of the source. \<open>sz1\<close> is read from \<^verbatim>\<open>tdm_list[0]\<close> before the loop, also when
  the list is empty.
\<close>

definition type_check_failed ::
  "macros \<Rightarrow> dataModel \<Rightarrow> exposureModel \<Rightarrow> reinfectionModel \<Rightarrow> distanceModel \<Rightarrow>
   transitionPriors \<Rightarrow> initialValueContainer \<Rightarrow> samplingControl \<Rightarrow> bool" where
  "type_check_failed K d e r ds t ivc sc =
     (dm_componentType d \<noteq> LSS_DATA_MODEL_TYPE K \<or>
      em_componentType e \<noteq> LSS_EXPOSURE_MODEL_TYPE K \<or>
      rm_componentType r \<noteq> LSS_REINFECTION_MODEL_TYPE K \<or>
      dist_componentType ds \<noteq> LSS_DISTANCE_MODEL_TYPE K \<or>
      tp_componentType t \<noteq> LSS_TRANSITION_MODEL_TYPE K \<or>
      ivc_componentType ivc \<noteq> LSS_INIT_CONTAINER_TYPE K \<or>
      fst (samplingControl_getModelComponentType K sc) \<noteq> LSS_SAMPLING_CONTROL_MODEL_TYPE K)"

fun lagged_sizes_loop :: "dmat list list \<Rightarrow> nat \<Rightarrow> error + unit" where
  "lagged_sizes_loop [] sz1 = Inr ()"
| "lagged_sizes_loop (l # ls) sz1 =
     (if length l \<noteq> sz1
      then Inl (ConfigurationError
        (''Differing number of lagged contact matrices across time points.'' @ newline))
      else lagged_sizes_loop ls sz1)"

definition validate ::
  "macros \<Rightarrow> dataModel \<Rightarrow> exposureModel \<Rightarrow> reinfectionModel \<Rightarrow> distanceModel \<Rightarrow>
   transitionPriors \<Rightarrow> initialValueContainer \<Rightarrow> samplingControl \<Rightarrow> error + unit" where
  "validate K d e r ds t ivc sc =
    (if type_check_failed K d e r ds t ivc sc
     then Inl (ConfigurationError
       (''Error: model components were not provided in the correct order. '' @ newline))
     else if dm_nLoc d \<noteq> em_nLoc e
     then Inl (ConfigurationError
       (''Exposure model and data model imply different number of locations: ''
         @ to_string (dm_nLoc d) @ '', '' @ to_string (em_nLoc e) @ ''.'' @ newline))
     else if dm_nTpt d \<noteq> em_nTpt e
     then Inl (ConfigurationError
       (''Exposure model and data model imply different number of time points:''
         @ to_string (dm_nTpt d) @ '', '' @ to_string (em_nTpt e) @ ''.'' @ newline))
     else if dm_nLoc d \<noteq> numLocations ds
     then Inl (ConfigurationError
       (''Data model and distance model imply different number of locations:''
         @ to_string (dm_nLoc d) @ '', '' @ to_string (numLocations ds) @ ''.'' @ newline))
     else if int (length (tdm_list ds)) \<noteq> dm_nTpt d
     then Inl (ConfigurationError
       (''TDistance model and data model imply a different number of time points.''
         @ newline))
     else
       bindE (vec_at (tdm_list ds) 0) (\<lambda>first.
       bindE (lagged_sizes_loop (tdm_list ds) (length first)) (\<lambda>_.
         if dm_nLoc d \<noteq> int (length (S0 ivc))
         then Inl (ConfigurationError
           (''Data model and initial value container have different dimensions'' @ newline))
         else if reinfectionMode r \<noteq> 3 \<and> int (rows (X_rs r)) \<noteq> dm_nTpt d
         then Inl (ConfigurationError
           (''Reinfection and data mode time points differ.'' @ newline))
         else if mode t \<noteq> ''exponential'' \<and> mode t \<noteq> ''path_specific'' \<and>
                 mode t \<noteq> ''weibull''
         then Inl (ConfigurationError (''Invalid transition mode: '' @ mode t))
         else Inr ())))"

text \<open>
  \<open>build\<close> is the rest of the constructor: the transition distributions, the
  generator, the result stores and the worker pool.
\<close>

definition DummyParams :: "real list" where
  "DummyParams = [1, 1, 1, 1]"

definition build ::
  "macros \<Rightarrow> 'g stdlib \<Rightarrow> unassigned \<Rightarrow> dataModel \<Rightarrow> exposureModel \<Rightarrow> reinfectionModel \<Rightarrow>
   distanceModel \<Rightarrow> transitionPriors \<Rightarrow> initialValueContainer \<Rightarrow> samplingControl \<Rightarrow>
   error + 'g spatialSEIRModel" where
  "build K L U d e r ds t ivc sc =
    bindE (if mode t = ''weibull''
           then bindE (col (E_to_I_params t) 0) (\<lambda>ei.
                bindE (col (I_to_R_params t) 0) (\<lambda>ir.
                  Inr (WeibullTransitionDistribution ei, WeibullTransitionDistribution ir)))
           else Inr (WeibullTransitionDistribution DummyParams,
                     WeibullTransitionDistribution DummyParams))
      (\<lambda>(ei_dist, ir_dist).
        Inr \<lparr> dataModelInstance = d,
              exposureModelInstance = e,
              reinfectionModelInstance = r,
              distanceModelInstance = ds,
              transitionPriorsInstance = t,
              initialValueContainerInstance = ivc,
              samplingControlInstance = sc,
              EI_transition_dist = ei_dist,
              IR_transition_dist = ir_dist,
              generator = seed_generator L (random_seed sc + 1),
              is_initialized = False,
              param_matrix = u_param_matrix U,
              results_complete = [],
              results_double = zero_matrix (nat (batch_size sc)) (nat (m sc)),
              result_idx = u_result_idx U,
              ncalls = u_ncalls U,
              worker_pool = \<lparr> np_CPU_cores = nat (CPU_cores sc mod 2 ^ 32),
                              np_random_seed = random_seed sc + u_ncalls U,
                              np_m = m sc \<rparr>,
              member_hasReinfection = u_hasReinfection U,
              member_hasSpatial = u_hasSpatial U,
              member_transitionMode = u_transitionMode U,
              member_N = u_N U \<rparr>)"

text \<open>\<^verbatim>\<open>spatialSEIRModel::spatialSEIRModel\<close>: an error leaves no object.\<close>

definition spatialSEIRModel_ctor ::
  "macros \<Rightarrow> 'g stdlib \<Rightarrow> unassigned \<Rightarrow> dataModel \<Rightarrow> exposureModel \<Rightarrow> reinfectionModel \<Rightarrow>
   distanceModel \<Rightarrow> transitionPriors \<Rightarrow> initialValueContainer \<Rightarrow> samplingControl \<Rightarrow>
   error + 'g spatialSEIRModel" where
  "spatialSEIRModel_ctor K L U d e r ds t ivc sc =
     bindE (validate K d e r ds t ivc sc) (\<lambda>_. build K L U d e r ds t ivc sc)"

section \<open>Loops\<close>

text \<open>
  \<^verbatim>\<open>for (i = a; i < b; i++) body\<close> is \<open>for_loop [a..<b] body\<close>: the body is run for
  each index in turn on the state left by the previous one, and the first error ends
  the loop.
\<close>

fun for_loop :: "nat list \<Rightarrow> (nat \<Rightarrow> 's \<Rightarrow> error + 's) \<Rightarrow> 's \<Rightarrow> error + 's" where
  "for_loop [] body s = Inr s"
| "for_loop (i # is) body s =
     (case body i s of Inl e \<Rightarrow> Inl e | Inr s' \<Rightarrow> for_loop is body s')"

definition bool_to_nat :: "bool \<Rightarrow> nat" where
  "bool_to_nat b = (if b then 1 else 0)"

definition nTrans_of :: "string \<Rightarrow> nat" where
  "nTrans_of transitionMode =
     (if transitionMode = ''exponential'' then 2
      else if transitionMode = ''weibull'' then 4 else 0)"

section \<open>generateParamsPrior\<close>

text \<open>
  The locals that \<^verbatim>\<open>generateParamsPrior\<close> computes before it samples. Reading
  \<^verbatim>\<open>betaPriorPrecision(0)\<close> and \<^verbatim>\<open>tdm_list[0]\<close> can fall outside the vector.
\<close>

record gp_locals =
  gp_hasReinfection :: bool
  gp_hasSpatial :: bool
  gp_transitionMode :: string
  gp_nBeta :: nat
  gp_nBetaRS :: nat
  gp_nRho :: nat
  gp_nTrans :: nat
  gp_nParams :: nat

definition generateParamsPrior_locals :: "'g spatialSEIRModel \<Rightarrow> error + gp_locals" where
  "generateParamsPrior_locals this =
     bindE (vec_at (rm_betaPriorPrecision (reinfectionModelInstance this)) 0) (\<lambda>precision0.
     bindE (vec_at (tdm_list (distanceModelInstance this)) 0) (\<lambda>tdm0.
       let hasReinfection = (precision0 > 0);
           hasSpatial = (cols (Y (dataModelInstance this)) > 1);
           transitionMode = mode (transitionPriorsInstance this);
           nBeta = cols (X (exposureModelInstance this));
           nBetaRS = cols (X_rs (reinfectionModelInstance this)) * bool_to_nat hasReinfection;
           nRho = (length (dm_list (distanceModelInstance this)) + length tdm0)
                    * bool_to_nat hasSpatial;
           nTrans = nTrans_of transitionMode
       in Inr \<lparr> gp_hasReinfection = hasReinfection,
                gp_hasSpatial = hasSpatial,
                gp_transitionMode = transitionMode,
                gp_nBeta = nBeta,
                gp_nBetaRS = nBetaRS,
                gp_nRho = nRho,
                gp_nTrans = nTrans,
                gp_nParams = nBeta + nBetaRS + nRho + nTrans \<rparr>))"

text \<open>The distribution objects set up before the loops.\<close>

definition standardNormal :: distribution where
  "standardNormal = normal_distribution 0 1"

definition rhoDist :: "'g spatialSEIRModel \<Rightarrow> error + distribution" where
  "rhoDist this =
     bindE (vec_at (spatial_prior (distanceModelInstance this)) 0) (\<lambda>a.
     bindE (vec_at (spatial_prior (distanceModelInstance this)) 1) (\<lambda>b.
       Inr (gamma_distribution a (1 / b))))"

definition gamma_from :: "real list list \<Rightarrow> nat \<Rightarrow> nat \<Rightarrow> error + distribution" where
  "gamma_from params r1 r2 =
     bindE (mat_at params r1 0) (\<lambda>a.
     bindE (mat_at params r2 0) (\<lambda>b.
       Inr (gamma_distribution a (1 / b))))"

definition gammaDists :: "string \<Rightarrow> real list list \<Rightarrow> error + distribution list" where
  "gammaDists transitionMode params =
     (if transitionMode = ''exponential''
      then bindE (gamma_from params 0 1) (\<lambda>d0. Inr [d0])
      else if transitionMode = ''weibull''
      then bindE (gamma_from params 0 1) (\<lambda>d0.
           bindE (gamma_from params 2 3) (\<lambda>d1. Inr [d0, d1]))
      else Inr [])"

text \<open>
  One assignment \<^verbatim>\<open>outParams(i, j) = distr(*generator)\<close>; the state is the matrix
  and the generator.
\<close>

definition draw_cell ::
  "'g stdlib \<Rightarrow> distribution \<Rightarrow> nat \<Rightarrow> nat \<Rightarrow> matrix \<times> 'g \<Rightarrow> error + matrix \<times> 'g" where
  "draw_cell L distr i j s =
     (case s of (M, g) \<Rightarrow>
        (case draw L distr g of (v, g') \<Rightarrow>
           bindE (write_cell M i j v) (\<lambda>M'. Inr (M', g'))))"

text \<open>
  One assignment \<^verbatim>\<open>outParams(i, j) = betaPriorMean(j) + standardNormal(*generator) /
  betaPriorPrecision(j)\<close>. The beta loop and the reinfection loop both have this body,
  each with the prior vectors of its own model and with the column index \<open>j\<close> as the
  index into them.
\<close>

definition normal_cell ::
  "'g stdlib \<Rightarrow> real list \<Rightarrow> real list \<Rightarrow> nat \<Rightarrow> nat \<Rightarrow> matrix \<times> 'g \<Rightarrow> error + matrix \<times> 'g" where
  "normal_cell L betaPriorMean betaPriorPrecision i j s =
     (case s of (M, g) \<Rightarrow>
        bindE (vec_at betaPriorMean j) (\<lambda>mu.
          (case draw L standardNormal g of (z, g') \<Rightarrow>
             bindE (vec_at betaPriorPrecision j) (\<lambda>precision.
             bindE (write_cell M i j (mu + z / precision)) (\<lambda>M'. Inr (M', g'))))))"

definition draw_beta ::
  "'g stdlib \<Rightarrow> 'g spatialSEIRModel \<Rightarrow> gp_locals \<Rightarrow> nat \<Rightarrow> matrix \<times> 'g \<Rightarrow> error + matrix \<times> 'g" where
  "draw_beta L this l nParticles =
     for_loop [0..<nParticles] (\<lambda>i.
       for_loop [0..<gp_nBeta l]
         (normal_cell L (em_betaPriorMean (exposureModelInstance this))
                        (em_betaPriorPrecision (exposureModelInstance this)) i))"

definition transition_row ::
  "'g stdlib \<Rightarrow> gp_locals \<Rightarrow> distribution list \<Rightarrow> distribution list \<Rightarrow> nat \<Rightarrow>
   matrix \<times> 'g \<Rightarrow> error + matrix \<times> 'g" where
  "transition_row L l gammaEIDist gammaIRDist i s =
     (let base = gp_nBeta l + gp_nBetaRS l + gp_nRho l in
      if gp_transitionMode l = ''exponential''
      then bindE (vec_at gammaEIDist 0) (\<lambda>ei0.
           bindE (draw_cell L ei0 i base s) (\<lambda>s1.
           bindE (vec_at gammaIRDist 0) (\<lambda>ir0.
             draw_cell L ir0 i (base + 1) s1)))
      else if gp_transitionMode l = ''weibull''
      then bindE (vec_at gammaEIDist 0) (\<lambda>ei0.
           bindE (draw_cell L ei0 i base s) (\<lambda>s1.
           bindE (vec_at gammaEIDist 1) (\<lambda>ei1.
           bindE (draw_cell L ei1 i (base + 1) s1) (\<lambda>s2.
           bindE (vec_at gammaIRDist 0) (\<lambda>ir0.
           bindE (draw_cell L ir0 i (base + 2) s2) (\<lambda>s3.
           bindE (vec_at gammaIRDist 1) (\<lambda>ir1.
             draw_cell L ir1 i (base + 3) s3)))))))
      else Inr s)"

definition draw_transitions ::
  "'g stdlib \<Rightarrow> gp_locals \<Rightarrow> distribution list \<Rightarrow> distribution list \<Rightarrow> nat \<Rightarrow>
   matrix \<times> 'g \<Rightarrow> error + matrix \<times> 'g" where
  "draw_transitions L l gammaEIDist gammaIRDist nParticles =
     for_loop [0..<nParticles] (transition_row L l gammaEIDist gammaIRDist)"

definition draw_reinfection ::
  "'g stdlib \<Rightarrow> 'g spatialSEIRModel \<Rightarrow> gp_locals \<Rightarrow> nat \<Rightarrow> matrix \<times> 'g \<Rightarrow> error + matrix \<times> 'g" where
  "draw_reinfection L this l nParticles s =
     (if gp_hasReinfection l
      then for_loop [0..<nParticles] (\<lambda>i.
             for_loop [gp_nBeta l..<gp_nBeta l + gp_nBetaRS l]
               (normal_cell L (rm_betaPriorMean (reinfectionModelInstance this))
                              (rm_betaPriorPrecision (reinfectionModelInstance this)) i)) s
      else Inr s)"

text \<open>
  The rho block of row \<open>i\<close>. \<open>rho_cell\<close> is the body of the inner loop over the
  columns, with \<open>rhoTot\<close> in the state; \<open>rho_while\<close> is the loop
  \<^verbatim>\<open>while (rhoTot > 1.0 && rhoItrs < 100)\<close>; \<open>rho_row\<close> is the body of the loop over
  the rows, which may write the diagnostic to \<^verbatim>\<open>Rcpp::Rcout\<close>.
\<close>

definition rho_cell ::
  "'g stdlib \<Rightarrow> distribution \<Rightarrow> nat \<Rightarrow> nat \<Rightarrow> matrix \<times> 'g \<times> real \<Rightarrow> error + matrix \<times> 'g \<times> real" where
  "rho_cell L distr i j s =
     (case s of (M, g, rhoTot) \<Rightarrow>
        (case draw L distr g of (v, g') \<Rightarrow>
           bindE (write_cell M i j v) (\<lambda>M'. Inr (M', g', rhoTot + v))))"

function rho_while ::
  "'g stdlib \<Rightarrow> distribution \<Rightarrow> nat \<Rightarrow> nat list \<Rightarrow> real \<Rightarrow> nat \<Rightarrow> matrix \<times> 'g \<Rightarrow>
   error + (matrix \<times> 'g) \<times> real \<times> nat" where
  "rho_while L distr i js rhoTot rhoItrs s =
     (if rhoTot > 1 \<and> rhoItrs < 100
      then (case for_loop js (rho_cell L distr i) (fst s, snd s, 0) of
              Inl e \<Rightarrow> Inl e
            | Inr (M', g', rhoTot') \<Rightarrow> rho_while L distr i js rhoTot' (rhoItrs + 1) (M', g'))
      else Inr (s, rhoTot, rhoItrs))"
  by pat_completeness auto
termination
  by (relation "measure (\<lambda>(L, distr, i, js, rhoTot, rhoItrs, s). 100 - rhoItrs)") auto

declare rho_while.simps [simp del]

definition rho_message :: string where
  "rho_message = ''Error, valid rho value not obtained'' @ newline"

definition rho_row ::
  "'g stdlib \<Rightarrow> distribution \<Rightarrow> gp_locals \<Rightarrow> nat \<Rightarrow> (matrix \<times> 'g) \<times> string list \<Rightarrow>
   error + (matrix \<times> 'g) \<times> string list" where
  "rho_row L distr l i st =
     (case st of (s, Rcout) \<Rightarrow>
        bindE (rho_while L distr i
                 [gp_nBeta l + gp_nBetaRS l..<gp_nBeta l + gp_nBetaRS l + gp_nRho l] 2 0 s)
          (\<lambda>(s', rhoTot, rhoItrs).
             Inr (s', if rhoTot > 1 then Rcout @ [rho_message] else Rcout)))"

definition draw_rho ::
  "'g stdlib \<Rightarrow> distribution \<Rightarrow> gp_locals \<Rightarrow> nat \<Rightarrow> (matrix \<times> 'g) \<times> string list \<Rightarrow>
   error + (matrix \<times> 'g) \<times> string list" where
  "draw_rho L distr l nParticles st =
     (if gp_hasSpatial l then for_loop [0..<nParticles] (rho_row L distr l) st else Inr st)"

text \<open>
  \<^verbatim>\<open>spatialSEIRModel::generateParamsPrior\<close>. The matrix is allocated with \<open>N\<close> rows,
  and the body ends without a \<^verbatim>\<open>return\<close> statement: what the function hands back is
  \<open>gp_returned\<close>, and the local matrix, the generator and the output written are kept
  beside it.
\<close>

record 'g gp_exit =
  gp_returned :: "matrix option"
  gp_outParams :: matrix
  gp_generator :: 'g
  gp_Rcout :: "string list"

definition generateParamsPrior ::
  "'g stdlib \<Rightarrow> 'g spatialSEIRModel \<Rightarrow> int \<Rightarrow> error + 'g gp_exit" where
  "generateParamsPrior L this nParticles =
     bindE (generateParamsPrior_locals this) (\<lambda>l.
     let outParams = uninitialized_matrix (member_N this) (gp_nParams l) in
     bindE (rhoDist this) (\<lambda>rho_dist.
     bindE (gammaDists (gp_transitionMode l) (E_to_I_params (transitionPriorsInstance this)))
       (\<lambda>gammaEIDist.
     bindE (gammaDists (gp_transitionMode l) (I_to_R_params (transitionPriorsInstance this)))
       (\<lambda>gammaIRDist.
     bindE (draw_beta L this l (nat nParticles) (outParams, generator this)) (\<lambda>s1.
     bindE (draw_transitions L l gammaEIDist gammaIRDist (nat nParticles) s1) (\<lambda>s2.
     bindE (draw_reinfection L this l (nat nParticles) s2) (\<lambda>s3.
     bindE (draw_rho L rho_dist l (nat nParticles) (s3, [])) (\<lambda>(s4, Rcout).
       Inr \<lparr> gp_returned = None,
             gp_outParams = fst s4,
             gp_generator = snd s4,
             gp_Rcout = Rcout \<rparr>))))))))"

section \<open>setParameters\<close>

text \<open>
  \<^verbatim>\<open>setParameters\<close> computes \<open>nParams\<close> from \<open>hasReinfection\<close>, \<open>hasSpatial\<close> and
  \<open>transitionMode\<close> without declaring them: they are the members of the object
  (\<open>member_hasReinfection\<close> and so on). The
  function is given in state-passing form, as the outcome and the object afterwards.
  It is declared \<^verbatim>\<open>bool\<close> and has no \<^verbatim>\<open>return\<close> statement, so a normal outcome
  carries no value.
\<close>

definition setParameters_nParams :: "'g spatialSEIRModel \<Rightarrow> error + nat" where
  "setParameters_nParams this =
     bindE (vec_at (tdm_list (distanceModelInstance this)) 0) (\<lambda>tdm0.
       let nBeta = cols (X (exposureModelInstance this));
           nBetaRS = cols (X_rs (reinfectionModelInstance this))
                       * bool_to_nat (member_hasReinfection this);
           nRho = (length (dm_list (distanceModelInstance this)) + length tdm0)
                    * bool_to_nat (member_hasSpatial this);
           nTrans = nTrans_of (member_transitionMode this)
       in Inr (nBeta + nBetaRS + nRho + nTrans))"

definition setParameters ::
  "'g spatialSEIRModel \<Rightarrow> matrix \<Rightarrow> (error + unit) \<times> 'g spatialSEIRModel" where
  "setParameters this params =
     (case setParameters_nParams this of
        Inl e \<Rightarrow> (Inl e, this)
      | Inr nParams \<Rightarrow>
          if ncols params \<noteq> nParams
          then (Inl (ConfigurationError
                  (''Number of supplied parameters does not match model specification.''
                     @ newline)), this)
          else (Inr (), this\<lparr> param_matrix := params, is_initialized := True \<rparr>))"

section \<open>evalPrior\<close>

text \<open>
  The densities of R's math library and the hyperprior evaluator of
  \<open>weibullTransitionDistribution\<close> are defined outside the source at hand. \<open>evalPrior\<close>
  is embedded in two layers: \<open>evalPrior_factors\<close> lists, in order, the factors that the
  statements \<^verbatim>\<open>outPrior *= ...\<close> multiply in, each with the arguments of its call;
  \<open>evalPrior\<close> multiplies their values, starting from \<open>1\<close>, given the external
  functions.
\<close>

datatype factor =
    dnorm real real real
  | dbeta real real real
  | dgamma real real real
  | indicator bool
  | evalParamPrior weibullTransitionDistribution "real list"



definition segment :: "real list \<Rightarrow> nat \<Rightarrow> nat \<Rightarrow> error + real list" where
  "segment v i n = (if i + n \<le> length v then Inr (take n (drop i v)) else Inl IndexOutOfRange)"

text \<open>
  The state of \<open>evalPrior\<close>: the factors of \<open>outPrior\<close> so far, \<open>constr\<close> and
  \<open>paramIdx\<close>. \<open>ep_normal\<close> is the body of the beta loop and of the reinfection loop,
  \<open>ep_rho\<close> the body of the rho loop.
\<close>

type_synonym ep_state = "factor list \<times> real \<times> nat"

definition ep_normal ::
  "real list \<Rightarrow> real list \<Rightarrow> real list \<Rightarrow> nat \<Rightarrow> ep_state \<Rightarrow> error + ep_state" where
  "ep_normal param_vector betaPriorMean betaPriorPrecision i s =
     (case s of (outPrior, constr, paramIdx) \<Rightarrow>
        bindE (vec_at param_vector paramIdx) (\<lambda>x.
        bindE (vec_at betaPriorMean i) (\<lambda>mu.
        bindE (vec_at betaPriorPrecision i) (\<lambda>precision.
          Inr (outPrior @ [dnorm x mu (1 / precision)], constr, paramIdx + 1)))))"

definition ep_rho :: "real list \<Rightarrow> real list \<Rightarrow> nat \<Rightarrow> ep_state \<Rightarrow> error + ep_state" where
  "ep_rho param_vector prior i s =
     (case s of (outPrior, constr, paramIdx) \<Rightarrow>
        bindE (vec_at param_vector paramIdx) (\<lambda>x.
        bindE (vec_at prior 0) (\<lambda>a.
        bindE (vec_at prior 1) (\<lambda>b.
          Inr (outPrior @ [dbeta x a b], constr + x, paramIdx + 1)))))"

definition ep_rho_block ::
  "real list \<Rightarrow> real list \<Rightarrow> nat \<Rightarrow> ep_state \<Rightarrow> error + ep_state" where
  "ep_rho_block param_vector prior nRho s =
     (if nRho > 0
      then bindE (for_loop [0..<nRho] (ep_rho param_vector prior) s)
             (\<lambda>(outPrior, constr, paramIdx).
                Inr (outPrior @ [indicator (constr \<le> 1)], constr, paramIdx))
      else Inr s)"

definition ep_transitions ::
  "'g spatialSEIRModel \<Rightarrow> string \<Rightarrow> real list \<Rightarrow> ep_state \<Rightarrow> error + factor list" where
  "ep_transitions this transitionMode param_vector s =
     (case s of (outPrior, constr, paramIdx) \<Rightarrow>
        if transitionMode = ''exponential''
        then bindE (vec_at param_vector paramIdx) (\<lambda>x1.
             bindE (mat_at (E_to_I_params (transitionPriorsInstance this)) 0 0) (\<lambda>a1.
             bindE (mat_at (E_to_I_params (transitionPriorsInstance this)) 1 0) (\<lambda>b1.
             bindE (vec_at param_vector (paramIdx + 1)) (\<lambda>x2.
             bindE (mat_at (I_to_R_params (transitionPriorsInstance this)) 0 0) (\<lambda>a2.
             bindE (mat_at (I_to_R_params (transitionPriorsInstance this)) 1 0) (\<lambda>b2.
               Inr (outPrior @ [dgamma x1 a1 (1 / b1)] @ [dgamma x2 a2 (1 / b2)])))))))
        else if transitionMode = ''weibull''
        then bindE (segment param_vector paramIdx 2) (\<lambda>seg1.
             bindE (segment param_vector (paramIdx + 2) 2) (\<lambda>seg2.
               Inr (outPrior @ [evalParamPrior (EI_transition_dist this) seg1]
                             @ [evalParamPrior (IR_transition_dist this) seg2])))
        else Inr outPrior)"

definition evalPrior_factors :: "'g spatialSEIRModel \<Rightarrow> real list \<Rightarrow> error + factor list" where
  "evalPrior_factors this param_vector =
     bindE (vec_at (rm_betaPriorPrecision (reinfectionModelInstance this)) 0) (\<lambda>precision0.
     bindE (vec_at (tdm_list (distanceModelInstance this)) 0) (\<lambda>tdm0.
       let hasReinfection = (precision0 > 0);
           hasSpatial = (cols (Y (dataModelInstance this)) > 1);
           transitionMode = mode (transitionPriorsInstance this);
           nBeta = cols (X (exposureModelInstance this));
           nBetaRS = cols (X_rs (reinfectionModelInstance this)) * bool_to_nat hasReinfection;
           nRho = (length (dm_list (distanceModelInstance this)) + length tdm0)
                    * bool_to_nat hasSpatial
       in
       bindE (for_loop [0..<nBeta]
                (ep_normal param_vector
                   (em_betaPriorMean (exposureModelInstance this))
                   (em_betaPriorPrecision (exposureModelInstance this))) ([], 0, 0)) (\<lambda>s1.
       bindE (if nBetaRS > 0
              then for_loop [0..<nBetaRS]
                     (ep_normal param_vector
                        (rm_betaPriorMean (reinfectionModelInstance this))
                        (rm_betaPriorPrecision (reinfectionModelInstance this))) s1
              else Inr s1) (\<lambda>s2.
       bindE (ep_rho_block param_vector (spatial_prior (distanceModelInstance this)) nRho s2)
         (\<lambda>s3.
       ep_transitions this transitionMode param_vector s3)))))"


section \<open>run_simulation\<close>

text \<open>
  \<^verbatim>\<open>spatialSEIRModel::run_simulation\<close>, in state-passing form. Its body holds a comment
  and no statement.
\<close>

definition run_simulation :: "'g spatialSEIRModel \<Rightarrow> matrix \<Rightarrow> 'g spatialSEIRModel" where
  "run_simulation this params = this"

section \<open>Conditions named by the specification\<close>

text \<open>The failure conditions of the constructor, as the specification lists them.\<close>

definition location_counts_disagree :: "dataModel \<Rightarrow> exposureModel \<Rightarrow> distanceModel \<Rightarrow> bool" where
  "location_counts_disagree d e ds = (dm_nLoc d \<noteq> em_nLoc e \<or> dm_nLoc d \<noteq> numLocations ds)"

definition time_point_counts_disagree :: "dataModel \<Rightarrow> exposureModel \<Rightarrow> bool" where
  "time_point_counts_disagree d e = (dm_nTpt d \<noteq> em_nTpt e)"

definition lagged_lists_disagree :: "dataModel \<Rightarrow> distanceModel \<Rightarrow> bool" where
  "lagged_lists_disagree d ds =
     (int (length (tdm_list ds)) \<noteq> dm_nTpt d \<or>
      list_ex (\<lambda>l. list_ex (\<lambda>l'. length l \<noteq> length l') (tdm_list ds)) (tdm_list ds))"

definition initial_length_disagrees :: "dataModel \<Rightarrow> initialValueContainer \<Rightarrow> bool" where
  "initial_length_disagrees d ivc = (dm_nLoc d \<noteq> int (length (S0 ivc)))"

definition reinfection_rows_disagree :: "dataModel \<Rightarrow> reinfectionModel \<Rightarrow> bool" where
  "reinfection_rows_disagree d r =
     (reinfectionMode r \<noteq> 3 \<and> int (rows (X_rs r)) \<noteq> dm_nTpt d)"

definition invalid_transition_mode :: "transitionPriors \<Rightarrow> bool" where
  "invalid_transition_mode t = (mode t \<notin> {''exponential'', ''weibull'', ''path_specific''})"

definition listed_condition ::
  "macros \<Rightarrow> dataModel \<Rightarrow> exposureModel \<Rightarrow> reinfectionModel \<Rightarrow> distanceModel \<Rightarrow>
   transitionPriors \<Rightarrow> initialValueContainer \<Rightarrow> samplingControl \<Rightarrow> bool" where
  "listed_condition K d e r ds t ivc sc =
     (type_check_failed K d e r ds t ivc sc \<or>
      location_counts_disagree d e ds \<or>
      time_point_counts_disagree d e \<or>
      lagged_lists_disagree d ds \<or>
      initial_length_disagrees d ivc \<or>
      reinfection_rows_disagree d r \<or>
      invalid_transition_mode t)"







text \<open>
  \<open>draws L d n g\<close> is \<open>n\<close> successive draws from \<open>d\<close>, starting with generator \<open>g\<close>:
  the values and the generator afterwards. An attempt at a rho block of width \<open>n\<close> is
  \<open>n\<close> such draws; \<open>attempt_gen L d n k g\<close> is the generator after \<open>k\<close> attempts and
  \<open>attempt L d n k g\<close> the values of attempt number \<open>k\<close>, counted from \<open>0\<close>.
\<close>

fun draws :: "'g stdlib \<Rightarrow> distribution \<Rightarrow> nat \<Rightarrow> 'g \<Rightarrow> real list \<times> 'g" where
  "draws L d 0 g = ([], g)"
| "draws L d (Suc n) g =
     (case draw L d g of (v, g') \<Rightarrow>
        (case draws L d n g' of (vs, g'') \<Rightarrow> (v # vs, g'')))"

definition attempt_gen :: "'g stdlib \<Rightarrow> distribution \<Rightarrow> nat \<Rightarrow> nat \<Rightarrow> 'g \<Rightarrow> 'g" where
  "attempt_gen L d n k g = ((\<lambda>g. snd (draws L d n g)) ^^ k) g"

definition attempt :: "'g stdlib \<Rightarrow> distribution \<Rightarrow> nat \<Rightarrow> nat \<Rightarrow> 'g \<Rightarrow> real list" where
  "attempt L d n k g = fst (draws L d n (attempt_gen L d n k g))"


text \<open>
  What the rho phase leaves in row \<open>i\<close> of a matrix: for some generator and some
  \<open>a < 100\<close>, the values of attempt \<open>a\<close>, every earlier attempt having summed to
  more than \<open>1\<close>, and attempt \<open>a\<close> summing to at most \<open>1\<close> unless it is the
  hundredth.
\<close>

definition rho_row_drawn ::
  "'g stdlib \<Rightarrow> distribution \<Rightarrow> gp_locals \<Rightarrow> matrix \<Rightarrow> nat \<Rightarrow> bool" where
  "rho_row_drawn L d l M i =
     (\<exists>g. \<exists>a<100.
        (\<forall>j<a. 1 < sum_list (attempt L d (gp_nRho l) j g))
        \<and> (sum_list (attempt L d (gp_nRho l) a g) \<le> 1 \<or> a = 99)
        \<and> (\<forall>q<gp_nRho l. cell M i (gp_nBeta l + gp_nBetaRS l + q)
                             = Some (attempt L d (gp_nRho l) a g ! q)))"



section \<open>Example inputs\<close>

text \<open>
  The example is the end-to-end configuration of the specification: three locations, ten
  time points, two exposure covariates, reinfection disabled, one base and one lagged
  distance matrix, spatial prior \<open>(1, 1)\<close>, exponential transitions. \<open>example_model\<close>
  is the object that the constructor builds from it, with the members that the
  constructor does not assign at \<open>False\<close>, \<open>False\<close>, the empty string and \<open>N = 1\<close>;
  in \<open>example_model_derived\<close> the first three hold the values that
  \<open>generateParamsPrior\<close> derives. \<open>example_stdlib\<close> is a generator that counts its
  calls; its normal draws are \<open>1/2\<close> and its Gamma draws are \<open>3/4\<close> before the sixth
  call and \<open>1/4\<close> from then on. The other examples vary one component each: no time
  points and an invalid mode, weibull transitions, and reinfection enabled with one
  covariate.
\<close>

definition example_macros :: macros where
  "example_macros =
     \<lparr> LSS_DATA_MODEL_TYPE = 1, LSS_EXPOSURE_MODEL_TYPE = 2, LSS_REINFECTION_MODEL_TYPE = 3,
       LSS_DISTANCE_MODEL_TYPE = 4, LSS_TRANSITION_MODEL_TYPE = 5, LSS_INIT_CONTAINER_TYPE = 6,
       LSS_SAMPLING_CONTROL_MODEL_TYPE = 7, ALG_BasicABC = 1, ALG_ModifiedBeaumont2009 = 2,
       ALG_DelMoral2012 = 3, SPATIALSEIR_SINGLETHREAD = False \<rparr>"

definition example_samplingControl :: samplingControl where
  "example_samplingControl =
     \<lparr> simulation_width = 1, random_seed = 123, CPU_cores = 2, algorithm = 1,
       batch_size = 100, epochs = 5, max_batches = 10, multivariatePerturbation = False,
       m = 4, accept_fraction = 1 / 10, shrinkage = 9 / 10, target_eps = 0, prot = 1 \<rparr>"

definition example_dmat :: dmat where
  "example_dmat = [[0, 1, 1], [1, 0, 1], [1, 1, 0]]"

definition example_dataModel :: dataModel where
  "example_dataModel =
     \<lparr> dm_componentType = 1, dm_nLoc = 3, dm_nTpt = 10, Y = \<lparr> rows = 10, cols = 3 \<rparr> \<rparr>"

definition example_exposureModel :: exposureModel where
  "example_exposureModel =
     \<lparr> em_componentType = 2, em_nLoc = 3, em_nTpt = 10, X = \<lparr> rows = 30, cols = 2 \<rparr>,
       em_betaPriorMean = [0, 1], em_betaPriorPrecision = [1, 2] \<rparr>"

definition example_reinfectionModel :: reinfectionModel where
  "example_reinfectionModel =
     \<lparr> rm_componentType = 3, reinfectionMode = 3, X_rs = \<lparr> rows = 0, cols = 0 \<rparr>,
       rm_betaPriorMean = [0], rm_betaPriorPrecision = [0] \<rparr>"

definition example_distanceModel :: distanceModel where
  "example_distanceModel =
     \<lparr> dist_componentType = 4, numLocations = 3, dm_list = [example_dmat],
       tdm_list = replicate 10 [example_dmat], spatial_prior = [1, 1] \<rparr>"

definition example_transitionPriors :: transitionPriors where
  "example_transitionPriors =
     \<lparr> tp_componentType = 5, mode = ''exponential'',
       E_to_I_params = [[2, 8, 1, 1]], I_to_R_params = [[3, 9, 1, 1]] \<rparr>"

definition example_initialValueContainer :: initialValueContainer where
  "example_initialValueContainer = \<lparr> ivc_componentType = 6, S0 = [100, 100, 100] \<rparr>"

definition example_stdlib :: "nat stdlib" where
  "example_stdlib =
     \<lparr> seed_generator = (\<lambda>seed. 0),
       draw = (\<lambda>d g. (case d of normal_distribution mu sd \<Rightarrow> 1 / 2
                                | gamma_distribution a b \<Rightarrow> if g < 6 then 3 / 4 else 1 / 4,
                      g + 1)) \<rparr>"

definition example_unassigned :: unassigned where
  "example_unassigned =
     \<lparr> u_param_matrix = uninitialized_matrix 0 0, u_result_idx = [], u_ncalls = 0,
       u_hasReinfection = False, u_hasSpatial = False, u_transitionMode = [], u_N = 1 \<rparr>"

definition example_ctor where
  "example_ctor = spatialSEIRModel_ctor example_macros example_stdlib example_unassigned
         example_dataModel example_exposureModel example_reinfectionModel
         example_distanceModel example_transitionPriors example_initialValueContainer
         example_samplingControl"


definition example_model :: "nat spatialSEIRModel" where
  "example_model =
     \<lparr> dataModelInstance = example_dataModel,
       exposureModelInstance = example_exposureModel,
       reinfectionModelInstance = example_reinfectionModel,
       distanceModelInstance = example_distanceModel,
       transitionPriorsInstance = example_transitionPriors,
       initialValueContainerInstance = example_initialValueContainer,
       samplingControlInstance = example_samplingControl,
       EI_transition_dist = WeibullTransitionDistribution DummyParams,
       IR_transition_dist = WeibullTransitionDistribution DummyParams,
       generator = 0,
       is_initialized = False,
       param_matrix = uninitialized_matrix 0 0,
       results_complete = [],
       results_double = zero_matrix 100 4,
       result_idx = [],
       ncalls = 0,
       worker_pool = \<lparr> np_CPU_cores = 2, np_random_seed = 123, np_m = 4 \<rparr>,
       member_hasReinfection = False,
       member_hasSpatial = False,
       member_transitionMode = [],
       member_N = 1 \<rparr>"


definition empty_dataModel :: dataModel where
  "empty_dataModel = example_dataModel \<lparr> dm_nTpt := 0, Y := \<lparr> rows = 0, cols = 3 \<rparr> \<rparr>"

definition empty_exposureModel :: exposureModel where
  "empty_exposureModel = example_exposureModel \<lparr> em_nTpt := 0, X := \<lparr> rows = 0, cols = 2 \<rparr> \<rparr>"

definition empty_distanceModel :: distanceModel where
  "empty_distanceModel = example_distanceModel \<lparr> tdm_list := [] \<rparr>"

definition bad_transitionPriors :: transitionPriors where
  "bad_transitionPriors = example_transitionPriors \<lparr> mode := ''gamma'' \<rparr>"


definition example_weibull_model :: "nat spatialSEIRModel" where
  "example_weibull_model =
     example_model
       \<lparr> transitionPriorsInstance :=
           \<lparr> tp_componentType = 5, mode = ''weibull'',
             E_to_I_params = [[2, 8, 3, 6]], I_to_R_params = [[3, 9, 4, 5]] \<rparr>,
         EI_transition_dist := WeibullTransitionDistribution [2, 8, 3, 6],
         IR_transition_dist := WeibullTransitionDistribution [3, 9, 4, 5] \<rparr>"

definition example_vector :: "real list" where
  "example_vector = [1, 2, 1 / 4, 1 / 4, 5, 6]"

definition example_vector_outside :: "real list" where
  "example_vector_outside = [1, 2, 3 / 4, 3 / 4, 5, 6]"

definition example_weibull_vector :: "real list" where
  "example_weibull_vector = [1, 2, 1 / 4, 1 / 4, 5, 6, 7, 8]"



definition example_reinfection_model :: "nat spatialSEIRModel" where
  "example_reinfection_model =
     example_model
       \<lparr> exposureModelInstance :=
           \<lparr> em_componentType = 2, em_nLoc = 3, em_nTpt = 10, X = \<lparr> rows = 30, cols = 1 \<rparr>,
             em_betaPriorMean = [0], em_betaPriorPrecision = [1] \<rparr>,
         reinfectionModelInstance :=
           \<lparr> rm_componentType = 3, reinfectionMode = 1, X_rs = \<lparr> rows = 10, cols = 1 \<rparr>,
             rm_betaPriorMean = [5], rm_betaPriorPrecision = [2] \<rparr> \<rparr>"

definition example_reinfection_model_long :: "nat spatialSEIRModel" where
  "example_reinfection_model_long =
     example_reinfection_model
       \<lparr> reinfectionModelInstance :=
           \<lparr> rm_componentType = 3, reinfectionMode = 1, X_rs = \<lparr> rows = 10, cols = 1 \<rparr>,
             rm_betaPriorMean = [5, 7], rm_betaPriorPrecision = [2, 4] \<rparr> \<rparr>"

section \<open>Auxiliary facts: the error monad, loops, lists\<close>

lemma bindE_Inr_iff: "bindE x f = Inr y \<longleftrightarrow> (\<exists>a. x = Inr a \<and> f a = Inr y)"
  by (cases x) (auto simp: bindE_def)


lemma bindE_Inl: "bindE (Inl e) f = Inl e"
  by (simp add: bindE_def)

lemma vec_at_Inr_iff: "vec_at v i = Inr x \<longleftrightarrow> i < length v \<and> x = v ! i"
  by (auto simp: vec_at_def)


lemma for_loop_append:
  "for_loop (xs @ ys) body s = bindE (for_loop xs body s) (for_loop ys body)"
  by (induction xs arbitrary: s) (auto simp: bindE_def split: sum.splits)

lemma for_loop_single: "for_loop [i] body s = body i s"
  by (cases "body i s") auto

lemma for_loop_snoc_Inr_iff:
  "for_loop [0..<Suc n] body s = Inr s'
   \<longleftrightarrow> (\<exists>s1. for_loop [0..<n] body s = Inr s1 \<and> body n s1 = Inr s')"
  by (simp add: for_loop_append bindE_Inr_iff for_loop_single del: for_loop.simps)



lemma write_cell_Inr_iff:
  "write_cell M i j v = Inr M' \<longleftrightarrow>
     i < nrows M \<and> j < ncols M \<and> M' = M\<lparr> cell := (cell M)(i := (cell M i)(j := Some v)) \<rparr>"
  by (auto simp: write_cell_def)






lemma locals_Inr_iff:
  "generateParamsPrior_locals this = Inr l \<longleftrightarrow>
     rm_betaPriorPrecision (reinfectionModelInstance this) \<noteq> [] \<and>
     tdm_list (distanceModelInstance this) \<noteq> [] \<and>
     l = \<lparr> gp_hasReinfection = (rm_betaPriorPrecision (reinfectionModelInstance this) ! 0 > 0),
           gp_hasSpatial = (cols (Y (dataModelInstance this)) > 1),
           gp_transitionMode = mode (transitionPriorsInstance this),
           gp_nBeta = cols (X (exposureModelInstance this)),
           gp_nBetaRS = cols (X_rs (reinfectionModelInstance this))
              * bool_to_nat (rm_betaPriorPrecision (reinfectionModelInstance this) ! 0 > 0),
           gp_nRho = (length (dm_list (distanceModelInstance this))
                       + length (tdm_list (distanceModelInstance this) ! 0))
              * bool_to_nat (cols (Y (dataModelInstance this)) > 1),
           gp_nTrans = nTrans_of (mode (transitionPriorsInstance this)),
           gp_nParams = cols (X (exposureModelInstance this))
              + cols (X_rs (reinfectionModelInstance this))
                * bool_to_nat (rm_betaPriorPrecision (reinfectionModelInstance this) ! 0 > 0)
              + (length (dm_list (distanceModelInstance this))
                       + length (tdm_list (distanceModelInstance this) ! 0))
                * bool_to_nat (cols (Y (dataModelInstance this)) > 1)
              + nTrans_of (mode (transitionPriorsInstance this)) \<rparr>"
  by (auto simp: generateParamsPrior_locals_def bindE_Inr_iff vec_at_Inr_iff Let_def)

lemma locals_sum:
  "generateParamsPrior_locals this = Inr l
   \<Longrightarrow> gp_nParams l = gp_nBeta l + gp_nBetaRS l + gp_nRho l + gp_nTrans l
       \<and> gp_nTrans l = nTrans_of (gp_transitionMode l)
       \<and> gp_transitionMode l = mode (transitionPriorsInstance this)
       \<and> gp_hasSpatial l = (1 < cols (Y (dataModelInstance this)))
       \<and> (\<not> gp_hasSpatial l \<longrightarrow> gp_nRho l = 0)
       \<and> gp_hasReinfection l = (0 < rm_betaPriorPrecision (reinfectionModelInstance this) ! 0)
       \<and> (\<not> gp_hasReinfection l \<longrightarrow> gp_nBetaRS l = 0)"
  by (auto simp: locals_Inr_iff bool_to_nat_def)

section \<open>Facts about the example inputs\<close>

lemmas example_defs =
  example_model_def example_macros_def example_dataModel_def
  example_exposureModel_def example_reinfectionModel_def example_distanceModel_def
  example_transitionPriors_def example_initialValueContainer_def
  example_samplingControl_def example_stdlib_def example_unassigned_def

lemmas access_defs =
  mat_at_def col_def vec_at_def bindE_def bool_to_nat_def Let_def

lemmas gp_defs =
  generateParamsPrior_def generateParamsPrior_locals_def rhoDist_def gammaDists_def
  gamma_from_def draw_beta_def draw_transitions_def
  draw_reinfection_def draw_rho_def rho_row_def transition_row_def normal_cell_def
  draw_cell_def rho_cell_def write_cell_def uninitialized_matrix_def standardNormal_def
  nTrans_of_def

lemmas ep_defs =
  evalPrior_factors_def ep_normal_def ep_rho_def ep_rho_block_def ep_transitions_def
  segment_def

lemma example_ctor_value: "example_ctor = Inr example_model"
  by (simp add: example_ctor_def example_model_def spatialSEIRModel_ctor_def validate_def
      build_def bindE_def vec_at_def type_check_failed_def
      samplingControl_getModelComponentType_def example_macros_def example_dataModel_def
      example_exposureModel_def example_reinfectionModel_def example_distanceModel_def
      example_transitionPriors_def example_initialValueContainer_def
      example_samplingControl_def example_stdlib_def example_unassigned_def
      eval_nat_numeral)

lemma example_locals:
  "generateParamsPrior_locals example_model =
     Inr \<lparr> gp_hasReinfection = False, gp_hasSpatial = True,
           gp_transitionMode = ''exponential'', gp_nBeta = 2, gp_nBetaRS = 0,
           gp_nRho = 2, gp_nTrans = 2, gp_nParams = 6 \<rparr>"
  by (simp add: generateParamsPrior_locals_def example_model_def bindE_def vec_at_def
      example_dataModel_def example_exposureModel_def example_reinfectionModel_def
      example_distanceModel_def example_transitionPriors_def bool_to_nat_def nTrans_of_def
      Let_def)


lemma example_setParameters_nParams: "setParameters_nParams example_model = Inr 2"
  by (simp add: setParameters_nParams_def example_model_def bindE_def vec_at_def
      example_exposureModel_def example_reinfectionModel_def
      example_distanceModel_def bool_to_nat_def nTrans_of_def Let_def)



lemma example_factors:
  "evalPrior_factors example_model example_vector =
     Inr [dnorm 1 0 1, dnorm 2 1 (1 / 2), dbeta (1 / 4) 1 1, dbeta (1 / 4) 1 1,
          indicator True, dgamma 5 2 (1 / 8), dgamma 6 3 (1 / 9)]"
  by (simp add: ep_defs access_defs example_defs example_vector_def eval_nat_numeral)

lemma example_factors_outside:
  "evalPrior_factors example_model example_vector_outside =
     Inr [dnorm 1 0 1, dnorm 2 1 (1 / 2), dbeta (3 / 4) 1 1, dbeta (3 / 4) 1 1,
          indicator False, dgamma 5 2 (1 / 8), dgamma 6 3 (1 / 9)]"
  by (simp add: ep_defs access_defs example_defs example_vector_outside_def eval_nat_numeral)

lemma example_weibull_factors:
  "evalPrior_factors example_weibull_model example_weibull_vector =
     Inr [dnorm 1 0 1, dnorm 2 1 (1 / 2), dbeta (1 / 4) 1 1, dbeta (1 / 4) 1 1,
          indicator True,
          evalParamPrior (WeibullTransitionDistribution [2, 8, 3, 6]) [5, 6],
          evalParamPrior (WeibullTransitionDistribution [3, 9, 4, 5]) [7, 8]]"
  by (simp add: ep_defs access_defs example_defs example_weibull_model_def example_weibull_vector_def
      eval_nat_numeral)






section \<open>samplingControl\<close>

lemma samplingControl_ctor_error_iff:
  "is_ConfigurationError (samplingControl_ctor K p ip np) =
     (wrong_block_lengths ip np \<or> invalid_algorithm_code K (ip ! 3) \<or> ip ! 6 \<le> 0)"
  by (simp add: samplingControl_ctor_def is_ConfigurationError_def wrong_block_lengths_def
      invalid_algorithm_code_def Let_def)

lemma samplingControl_ctor_never_out_of_range:
  "samplingControl_ctor K p ip np \<noteq> Inl IndexOutOfRange"
  by (simp add: samplingControl_ctor_def Let_def)

text \<open>
  C9. Constructing a samplingControl fails with a ConfigurationError exactly when the
  parameter block does not consist of 9 integers and 3 numerics, or the algorithm code
  (integer 3) is none of the three valid codes, or max_batches (integer 6) is not
  positive, and it fails in no other way. The only method the source defines on a
  constructed object, getModelComponentType, leaves the object as it was. Destroying the
  object fails exactly when its reference count \<open>prot\<close> is non-zero.
\<close>

theorem samplingControl_validation:
  "is_ConfigurationError (samplingControl_ctor K p ip np) =
     (wrong_block_lengths ip np \<or> invalid_algorithm_code K (ip ! 3) \<or> ip ! 6 \<le> 0)
   \<and> samplingControl_ctor K p ip np \<noteq> Inl IndexOutOfRange
   \<and> snd (samplingControl_getModelComponentType K sc) = sc
   \<and> is_ConfigurationError (samplingControl_dtor sc) = (prot sc \<noteq> 0)"
  using samplingControl_ctor_error_iff [of K p ip np]
    samplingControl_ctor_never_out_of_range [of K p ip np]
  by (simp add: samplingControl_getModelComponentType_def samplingControl_dtor_def
      is_ConfigurationError_def)

theorem samplingControl_validation_witness:
  "is_ConfigurationError
     (samplingControl_ctor example_macros 0 [1, 123, 2, 4, 100, 5, 10, 0, 4] [1 / 10, 9 / 10, 0])
   \<and> invalid_algorithm_code example_macros 4
   \<and> \<not> is_ConfigurationError
     (samplingControl_ctor example_macros 0 [1, 123, 2, 1, 100, 5, 10, 0, 4] [1 / 10, 9 / 10, 0])
   \<and> is_ConfigurationError (samplingControl_dtor example_samplingControl)
   \<and> prot example_samplingControl \<noteq> 0"
  using samplingControl_validation
      [of example_macros 0 "[1, 123, 2, 4, 100, 5, 10, 0, 4]" "[1 / 10, 9 / 10, 0]"
          example_samplingControl]
    samplingControl_validation
      [of example_macros 0 "[1, 123, 2, 1, 100, 5, 10, 0, 4]" "[1 / 10, 9 / 10, 0]"
          example_samplingControl]
  by (simp add: example_macros_def example_samplingControl_def invalid_algorithm_code_def
      wrong_block_lengths_def)

section \<open>The constructor\<close>

text \<open>
  The constructor fails with a ConfigurationError only in \<open>validate\<close>, before anything
  is built, and every such failure is one of the listed conditions. When the list of
  lagged matrix lists is not empty, it fails so exactly when a listed condition holds.
  A construction that succeeds has built the generator and the worker pool and has
  marked the object as not initialised.
\<close>

lemma lagged_sizes_loop_cases:
  "lagged_sizes_loop ls sz = Inr () \<and> list_all (\<lambda>l. length l = sz) ls
   \<or> is_ConfigurationError (lagged_sizes_loop ls sz) \<and> list_ex (\<lambda>l. length l \<noteq> sz) ls"
  by (induction ls) (auto simp: is_ConfigurationError_def)

lemma lagged_differ_iff:
  "list_ex (\<lambda>l. list_ex (\<lambda>l'. length l \<noteq> length l') (x # xs)) (x # xs)
   = list_ex (\<lambda>l. length l \<noteq> length x) (x # xs)"
  by (simp add: list_ex_iff) metis

lemma build_not_ConfigurationError:
  "\<not> is_ConfigurationError (build K L U d e r ds t ivc sc)"
  by (auto simp: build_def is_ConfigurationError_def bindE_def col_def vec_at_def
      split: sum.splits error.splits)

lemma validate_error_iff:
  "tdm_list ds \<noteq> [] \<Longrightarrow>
   is_ConfigurationError (validate K d e r ds t ivc sc) = listed_condition K d e r ds t ivc sc"
proof -
  assume ne: "tdm_list ds \<noteq> []"
  then obtain x xs where xs: "tdm_list ds = x # xs" by (cases "tdm_list ds") auto
  from lagged_sizes_loop_cases [of "x # xs" "length x"]
  show ?thesis
    unfolding validate_def listed_condition_def location_counts_disagree_def
      time_point_counts_disagree_def lagged_lists_disagree_def initial_length_disagrees_def
      reinfection_rows_disagree_def invalid_transition_mode_def xs lagged_differ_iff
    by (auto simp: is_ConfigurationError_def bindE_def vec_at_def list_ex_iff list_all_iff
        simp del: lagged_sizes_loop.simps split: sum.splits error.splits)
qed

lemma ctor_error_from_validate:
  "is_ConfigurationError (spatialSEIRModel_ctor K L U d e r ds t ivc sc)
   = is_ConfigurationError (validate K d e r ds t ivc sc)"
  using build_not_ConfigurationError [of K L U d e r ds t ivc sc]
  by (auto simp: spatialSEIRModel_ctor_def bindE_def is_ConfigurationError_def
      split: sum.splits error.splits)

lemma ctor_error_iff:
  "tdm_list ds \<noteq> [] \<Longrightarrow>
   is_ConfigurationError (spatialSEIRModel_ctor K L U d e r ds t ivc sc)
     = listed_condition K d e r ds t ivc sc"
  by (simp add: ctor_error_from_validate validate_error_iff)

lemma ctor_error_only_if_listed:
  "is_ConfigurationError (spatialSEIRModel_ctor K L U d e r ds t ivc sc)
   \<Longrightarrow> listed_condition K d e r ds t ivc sc"
proof (cases "tdm_list ds = []")
  case True
  assume "is_ConfigurationError (spatialSEIRModel_ctor K L U d e r ds t ivc sc)"
  then have "is_ConfigurationError (validate K d e r ds t ivc sc)"
    by (simp add: ctor_error_from_validate)
  with True show ?thesis
    by (auto simp: validate_def listed_condition_def location_counts_disagree_def
        time_point_counts_disagree_def lagged_lists_disagree_def bindE_def vec_at_def
        is_ConfigurationError_def split: if_splits)
next
  case False
  assume "is_ConfigurationError (spatialSEIRModel_ctor K L U d e r ds t ivc sc)"
  with False show ?thesis by (simp add: ctor_error_iff)
qed

lemma ctor_success_builds_everything:
  "spatialSEIRModel_ctor K L U d e r ds t ivc sc = Inr this
   \<Longrightarrow> \<not> is_initialized this
       \<and> results_complete this = []
       \<and> worker_pool this = \<lparr> np_CPU_cores = nat (CPU_cores sc mod 2 ^ 32),
                               np_random_seed = random_seed sc + u_ncalls U,
                               np_m = m sc \<rparr>
       \<and> generator this = seed_generator L (random_seed sc + 1)
       \<and> \<not> listed_condition K d e r ds t ivc sc"
proof -
  assume ok: "spatialSEIRModel_ctor K L U d e r ds t ivc sc = Inr this"
  then have "\<not> is_ConfigurationError (spatialSEIRModel_ctor K L U d e r ds t ivc sc)"
    by (simp add: is_ConfigurationError_def)
  moreover from ok have "tdm_list ds \<noteq> []"
    by (auto simp: spatialSEIRModel_ctor_def validate_def bindE_Inr_iff vec_at_Inr_iff
        split: if_splits)
  ultimately have "\<not> listed_condition K d e r ds t ivc sc"
    by (simp add: ctor_error_iff)
  moreover from ok have "\<not> is_initialized this
       \<and> results_complete this = []
       \<and> worker_pool this = \<lparr> np_CPU_cores = nat (CPU_cores sc mod 2 ^ 32),
                               np_random_seed = random_seed sc + u_ncalls U,
                               np_m = m sc \<rparr>
       \<and> generator this = seed_generator L (random_seed sc + 1)"
    by (auto simp: spatialSEIRModel_ctor_def build_def bindE_Inr_iff split: if_splits)
  ultimately show ?thesis by simp
qed

text \<open>
  C4. The claim asks for a ConfigurationError exactly when a listed condition holds.
  With a data model and an exposure model of zero time points and a distance model whose
  \<open>tdm_list\<close> is empty, the checks up to the count of time points pass, and the
  constructor then reads \<^verbatim>\<open>tdm_list[0]\<close> of the empty list before it reaches the check
  of the transition mode: with the invalid mode \<open>gamma\<close> a listed condition holds, and
  the outcome is the out-of-range read, not a ConfigurationError.
\<close>

theorem ctor_reads_empty_lagged_list:
  "spatialSEIRModel_ctor example_macros example_stdlib example_unassigned
     empty_dataModel empty_exposureModel example_reinfectionModel empty_distanceModel
     bad_transitionPriors example_initialValueContainer example_samplingControl
   = Inl IndexOutOfRange
   \<and> invalid_transition_mode bad_transitionPriors
   \<and> listed_condition example_macros
     empty_dataModel empty_exposureModel example_reinfectionModel empty_distanceModel
     bad_transitionPriors example_initialValueContainer example_samplingControl"
  by (simp add: spatialSEIRModel_ctor_def validate_def bindE_def vec_at_def
      type_check_failed_def samplingControl_getModelComponentType_def
      listed_condition_def invalid_transition_mode_def
      empty_dataModel_def empty_exposureModel_def empty_distanceModel_def
      bad_transitionPriors_def example_defs)

section \<open>The parameter count and setParameters\<close>

text \<open>
  \<open>setParameters\<close> computes the same sum as \<open>generateParamsPrior\<close>, and the two
  agree whenever the members it reads hold the values that \<open>generateParamsPrior\<close>
  derives from the components.
\<close>

lemma nParams_agree_when_members_derived:
  assumes "generateParamsPrior_locals this = Inr l"
    and "member_hasReinfection this = gp_hasReinfection l"
    and "member_hasSpatial this = gp_hasSpatial l"
    and "member_transitionMode this = gp_transitionMode l"
  shows "setParameters_nParams this = Inr (gp_nParams l)"
  using assms
  by (auto simp: locals_Inr_iff setParameters_nParams_def bindE_def vec_at_def Let_def)

lemma example_nParams_depends_on_members:
  "setParameters_nParams
      (example_model \<lparr> member_hasReinfection := b1, member_hasSpatial := b2,
                       member_transitionMode := tm \<rparr>) = Inr 6
   \<longleftrightarrow> (b2 \<and> tm = ''exponential'') \<or> (\<not> b2 \<and> tm = ''weibull'')"
  by (simp add: setParameters_nParams_def example_model_def bindE_def vec_at_def
      example_exposureModel_def example_reinfectionModel_def
      example_distanceModel_def bool_to_nat_def nTrans_of_def Let_def)

text \<open>
  C1. The claim asks that the three functions compute the same \<open>nParams\<close>. On the
  object that the constructor builds from the example, \<open>generateParamsPrior\<close> computes
  \<open>6\<close>, whereas \<open>setParameters\<close>, which reads members that nothing has assigned
  (here \<open>False\<close>, \<open>False\<close> and the empty string), computes \<open>2\<close> and rejects a
  matrix of six columns.
\<close>

theorem setParameters_nParams_differs:
  "example_ctor = Inr example_model
   \<and> generateParamsPrior_locals example_model =
       Inr \<lparr> gp_hasReinfection = False, gp_hasSpatial = True,
             gp_transitionMode = ''exponential'', gp_nBeta = 2, gp_nBetaRS = 0,
             gp_nRho = 2, gp_nTrans = 2, gp_nParams = 6 \<rparr>
   \<and> setParameters_nParams example_model = Inr 2
   \<and> is_ConfigurationError (fst (setParameters example_model (zero_matrix 10 6)))"
  using example_ctor_value example_locals example_setParameters_nParams
  by (simp add: setParameters_def is_ConfigurationError_def zero_matrix_def)



lemma setParameters_failure_keeps_state:
  "fst (setParameters this params) = Inl e \<Longrightarrow> snd (setParameters this params) = this"
  by (auto simp: setParameters_def split: sum.splits if_splits)

section \<open>evalPrior: the layout and the constraint on rho\<close>
















section \<open>generateParamsPrior: the rho block\<close>

lemma draws_Suc:
  "draws L d (Suc n) g =
     (fst (draw L d g) # fst (draws L d n (snd (draw L d g))),
      snd (draws L d n (snd (draw L d g))))"
  by (simp add: split_beta)

lemma length_draws: "length (fst (draws L d n g)) = n"
  by (induction n arbitrary: g) (simp_all add: draws_Suc del: draws.simps(2))

lemma rho_cell_apply:
  "rho_cell L d i j (M, g, t) =
     bindE (write_cell M i j (fst (draw L d g)))
       (\<lambda>M'. Inr (M', snd (draw L d g), t + fst (draw L d g)))"
  by (simp add: rho_cell_def split_beta)

lemma rho_cell_loop_list:
  "for_loop js (rho_cell L d i) (M, g, t) = Inr (M', g', t') \<Longrightarrow> distinct js
   \<Longrightarrow> t' = t + sum_list (fst (draws L d (length js) g))
       \<and> g' = snd (draws L d (length js) g)
       \<and> nrows M' = nrows M \<and> ncols M' = ncols M
       \<and> (\<forall>q<length js. cell M' i (js ! q) = Some (fst (draws L d (length js) g) ! q))
       \<and> (\<forall>i' j'. \<not> (i' = i \<and> j' \<in> set js) \<longrightarrow> cell M' i' j' = cell M i' j')"
proof (induction js arbitrary: M g t)
  case Nil
  then show ?case by simp
next
  case (Cons j js)
  let ?v = "fst (draw L d g)" and ?g1 = "snd (draw L d g)"
  from Cons.prems(1) obtain M1 where
    w: "write_cell M i j ?v = Inr M1"
    and rest: "for_loop js (rho_cell L d i) (M1, ?g1, t + ?v) = Inr (M', g', t')"
    by (auto simp: rho_cell_apply bindE_def split: sum.splits)
  from Cons.prems(2) have dj: "distinct js" and nj: "j \<notin> set js" by simp_all
  note IH = Cons.IH [OF rest dj]
  from w have M1: "M1 = M\<lparr> cell := (cell M)(i := (cell M i)(j := Some ?v)) \<rparr>"
    by (simp add: write_cell_Inr_iff)
  have c1: "cell M' i j = Some ?v"
    using IH nj by (simp add: M1)
  have cells: "\<forall>q<length (j # js).
      cell M' i ((j # js) ! q) = Some (fst (draws L d (length (j # js)) g) ! q)"
  proof (intro allI impI)
    fix q assume "q < length (j # js)"
    then show "cell M' i ((j # js) ! q) = Some (fst (draws L d (length (j # js)) g) ! q)"
      using IH c1 by (cases q) (simp_all add: draws_Suc del: draws.simps(2))
  qed
  have other: "\<forall>i' j'. \<not> (i' = i \<and> j' \<in> set (j # js)) \<longrightarrow> cell M' i' j' = cell M i' j'"
    using IH by (auto simp: M1)
  have "t' = t + sum_list (fst (draws L d (length (j # js)) g))"
    using IH by (simp add: draws_Suc del: draws.simps(2))
  moreover have "g' = snd (draws L d (length (j # js)) g)"
    using IH by (simp add: draws_Suc del: draws.simps(2))
  moreover have "nrows M' = nrows M \<and> ncols M' = ncols M"
    using IH by (simp add: M1)
  ultimately show ?case
    using cells other by blast
qed

lemma rho_cell_loop:
  assumes "for_loop [c..<c + n] (rho_cell L d i) (M, g, t) = Inr (M', g', t')"
  shows "t' = t + sum_list (fst (draws L d n g)) \<and> g' = snd (draws L d n g)
       \<and> nrows M' = nrows M \<and> ncols M' = ncols M
       \<and> (\<forall>q<n. cell M' i (c + q) = Some (fst (draws L d n g) ! q))
       \<and> (\<forall>i' j'. \<not> (i' = i \<and> c \<le> j' \<and> j' < c + n) \<longrightarrow> cell M' i' j' = cell M i' j')"
  using rho_cell_loop_list [OF assms] by simp



lemma attempt_gen_Suc: "attempt_gen L d n (Suc k) g = attempt_gen L d n k (snd (draws L d n g))"
  using funpow_swap1 [of "\<lambda>g. snd (draws L d n g)" k g]
  by (simp add: attempt_gen_def)

lemma attempt_Suc: "attempt L d n (Suc k) g = attempt L d n k (snd (draws L d n g))"
  by (simp add: attempt_def attempt_gen_Suc)

lemma attempt_0: "attempt L d n 0 g = fst (draws L d n g)"
  by (simp add: attempt_def attempt_gen_def)

lemma rho_while_step:
  "1 < tot0 \<Longrightarrow> k0 < 100 \<Longrightarrow> for_loop js (rho_cell L d i) (fst s, snd s, 0) = Inr (M1, g1, t1)
   \<Longrightarrow> rho_while L d i js tot0 k0 s = rho_while L d i js t1 (k0 + 1) (M1, g1)"
  by (subst rho_while.simps) simp

lemma rho_while_stop:
  "\<not> (1 < tot0 \<and> k0 < 100) \<Longrightarrow> rho_while L d i js tot0 k0 s = Inr (s, tot0, k0)"
  by (subst rho_while.simps) auto

lemma rho_while_error:
  "1 < tot0 \<Longrightarrow> k0 < 100 \<Longrightarrow> for_loop js (rho_cell L d i) (fst s, snd s, 0) = Inl e
   \<Longrightarrow> rho_while L d i js tot0 k0 s = Inl e"
  by (subst rho_while.simps) simp

lemma rho_while_result:
  "rho_while L d i js tot0 k0 s = Inr (s', tot, k) \<Longrightarrow> js = [c..<c + n] \<Longrightarrow> tot0 > 1 \<Longrightarrow> k0 < 100
   \<Longrightarrow> \<exists>a. k = k0 + a + 1 \<and> k \<le> 100
        \<and> (\<forall>j<a. sum_list (attempt L d n j (snd s)) > 1)
        \<and> tot = sum_list (attempt L d n a (snd s))
        \<and> (tot \<le> 1 \<or> k = 100)
        \<and> (\<forall>q<n. cell (fst s') i (c + q) = Some (attempt L d n a (snd s) ! q))
        \<and> snd s' = attempt_gen L d n (a + 1) (snd s)
        \<and> nrows (fst s') = nrows (fst s) \<and> ncols (fst s') = ncols (fst s)
        \<and> (\<forall>i' j'. \<not> (i' = i \<and> c \<le> j' \<and> j' < c + n) \<longrightarrow> cell (fst s') i' j' = cell (fst s) i' j')"
proof (induction L d i js tot0 k0 s rule: rho_while.induct)
  case (1 L d i js tot0 k0 s)
  have cond: "1 < tot0 \<and> k0 < 100" using "1.prems" by simp
  obtain M1 g1 t1 where
    loop: "for_loop js (rho_cell L d i) (fst s, snd s, 0) = Inr (M1, g1, t1)"
  proof (cases "for_loop js (rho_cell L d i) (fst s, snd s, 0)")
    case (Inl e)
    with rho_while_error [of tot0 k0 js L d i s e] cond "1.prems"(1) show ?thesis by simp
  next
    case (Inr b)
    with that show ?thesis by (cases b) auto
  qed
  have rest: "rho_while L d i js t1 (k0 + 1) (M1, g1) = Inr (s', tot, k)"
    using rho_while_step [OF _ _ loop, of tot0 k0] cond "1.prems"(1) by simp
  note A = rho_cell_loop [OF loop [unfolded "1.prems"(2)]]
  have t1: "t1 = sum_list (attempt L d n 0 (snd s))" and g1: "g1 = snd (draws L d n (snd s))"
    using A by (simp_all add: attempt_0)
  show ?case
  proof (cases "t1 > 1 \<and> k0 + 1 < 100")
    case True
    from "1.IH" [OF cond loop refl refl rest "1.prems"(2)] True
    obtain a where a: "k = k0 + 1 + a + 1" "k \<le> 100"
      "\<forall>j<a. sum_list (attempt L d n j g1) > 1"
      "tot = sum_list (attempt L d n a g1)"
      "tot \<le> 1 \<or> k = 100"
      "\<forall>q<n. cell (fst s') i (c + q) = Some (attempt L d n a g1 ! q)"
      "snd s' = attempt_gen L d n (a + 1) g1"
      "nrows (fst s') = nrows M1" "ncols (fst s') = ncols M1"
      "\<forall>i' j'. \<not> (i' = i \<and> c \<le> j' \<and> j' < c + n) \<longrightarrow> cell (fst s') i' j' = cell M1 i' j'"
      by auto
    have "\<forall>j<Suc a. sum_list (attempt L d n j (snd s)) > 1"
    proof (intro allI impI)
      fix j assume "j < Suc a"
      then show "sum_list (attempt L d n j (snd s)) > 1"
        using a(3) True t1 by (cases j) (auto simp: attempt_Suc g1)
    qed
    then show ?thesis
      using a A by (intro exI [of _ "Suc a"]) (simp add: attempt_Suc attempt_gen_Suc g1)
  next
    case False
    with rest have r: "s' = (M1, g1)" "tot = t1" "k = k0 + 1"
      by (simp_all add: rho_while_stop)
    show ?thesis
      using False A cond r t1 g1
      by (intro exI [of _ 0]) (auto simp: attempt_0 attempt_gen_def)
  qed
qed




text \<open>
  Lifted to the whole function: whenever \<open>generateParamsPrior\<close> completes on spatial
  data, every particle row of its matrix holds such a block.
\<close>

lemma rho_row_result:
  assumes "rho_row L d l i ((M, g), Rcout) = Inr ((M', g'), Rcout')"
    and "c = gp_nBeta l + gp_nBetaRS l" and "n = gp_nRho l"
  shows "\<exists>a<100.
           (\<forall>j<a. 1 < sum_list (attempt L d n j g))
         \<and> (sum_list (attempt L d n a g) \<le> 1 \<or> a = 99)
         \<and> (\<forall>q<n. cell M' i (c + q) = Some (attempt L d n a g ! q))
         \<and> g' = attempt_gen L d n (a + 1) g
         \<and> Rcout' = (if 1 < sum_list (attempt L d n a g) then Rcout @ [rho_message] else Rcout)
         \<and> nrows M' = nrows M \<and> ncols M' = ncols M
         \<and> (\<forall>i' j'. \<not> (i' = i \<and> c \<le> j' \<and> j' < c + n) \<longrightarrow> cell M' i' j' = cell M i' j')"
proof -
  from assms obtain tot k where
    w: "rho_while L d i [c..<c + n] 2 0 (M, g) = Inr ((M', g'), tot, k)"
    and out: "Rcout' = (if 1 < tot then Rcout @ [rho_message] else Rcout)"
    by (auto simp: rho_row_def bindE_Inr_iff add.assoc)
  from rho_while_result [OF w refl]
  obtain a where a: "k = a + 1" "k \<le> 100"
    "\<forall>j<a. sum_list (attempt L d n j g) > 1"
    "tot = sum_list (attempt L d n a g)"
    "tot \<le> 1 \<or> k = 100"
    "\<forall>q<n. cell M' i (c + q) = Some (attempt L d n a g ! q)"
    "g' = attempt_gen L d n (a + 1) g"
    "nrows M' = nrows M" "ncols M' = ncols M"
    "\<forall>i' j'. \<not> (i' = i \<and> c \<le> j' \<and> j' < c + n) \<longrightarrow> cell M' i' j' = cell M i' j'"
    by auto
  with out show ?thesis
    by (intro exI [of _ a]) auto
qed

lemma rho_row_drawn_cong:
  "\<forall>q<gp_nRho l. cell M' i (gp_nBeta l + gp_nBetaRS l + q)
                    = cell M i (gp_nBeta l + gp_nBetaRS l + q)
   \<Longrightarrow> rho_row_drawn L d l M i \<Longrightarrow> rho_row_drawn L d l M' i"
  unfolding rho_row_drawn_def by (elim exE conjE) (intro exI conjI, assumption+, simp)

lemma rho_rows_loop:
  "for_loop [0..<n] (rho_row L d l) ((M, g), Rcout) = Inr ((M', g'), Rcout')
   \<Longrightarrow> (\<forall>i<n. rho_row_drawn L d l M' i)
       \<and> (\<forall>i' j'. n \<le> i' \<longrightarrow> cell M' i' j' = cell M i' j')"
proof (induction n arbitrary: M' g' Rcout')
  case 0
  then show ?case by simp
next
  case (Suc n)
  from Suc.prems obtain M1 g1 out1 where
    s1: "for_loop [0..<n] (rho_row L d l) ((M, g), Rcout) = Inr ((M1, g1), out1)"
    and last: "rho_row L d l n ((M1, g1), out1) = Inr ((M', g'), Rcout')"
    unfolding for_loop_snoc_Inr_iff by auto
  note IH = Suc.IH [OF s1]
  from rho_row_result [OF last refl refl]
  obtain a where a: "a < 100"
    "\<forall>j<a. 1 < sum_list (attempt L d (gp_nRho l) j g1)"
    "sum_list (attempt L d (gp_nRho l) a g1) \<le> 1 \<or> a = 99"
    "\<forall>q<gp_nRho l. cell M' n (gp_nBeta l + gp_nBetaRS l + q)
        = Some (attempt L d (gp_nRho l) a g1 ! q)"
    and frame: "\<forall>i' j'. \<not> (i' = n \<and> gp_nBeta l + gp_nBetaRS l \<le> j'
                     \<and> j' < gp_nBeta l + gp_nBetaRS l + gp_nRho l)
                 \<longrightarrow> cell M' i' j' = cell M1 i' j'"
    by blast
  have new: "rho_row_drawn L d l M' n"
    unfolding rho_row_drawn_def using a by blast
  have old: "rho_row_drawn L d l M' i" if "i < n" for i
  proof (rule rho_row_drawn_cong)
    show "rho_row_drawn L d l M1 i" using IH that by simp
    show "\<forall>q<gp_nRho l. cell M' i (gp_nBeta l + gp_nBetaRS l + q)
                    = cell M1 i (gp_nBeta l + gp_nBetaRS l + q)"
      using frame that by simp
  qed
  have "\<forall>i<Suc n. rho_row_drawn L d l M' i"
    using new old by (auto simp: less_Suc_eq)
  moreover have "\<forall>i' j'. Suc n \<le> i' \<longrightarrow> cell M' i' j' = cell M i' j'"
    using frame IH by simp
  ultimately show ?case by simp
qed

lemma generateParamsPrior_rho_rows:
  assumes "generateParamsPrior L this nParticles = Inr x"
    and "generateParamsPrior_locals this = Inr l"
    and "rhoDist this = Inr d"
    and "1 < cols (Y (dataModelInstance this))"
  shows "\<forall>i<nat nParticles. rho_row_drawn L d l (gp_outParams x) i"
proof -
  from assms(1,2,3) obtain s3 s4 Rcout where
    rho: "draw_rho L d l (nat nParticles) (s3, []) = Inr (s4, Rcout)"
    and x: "gp_outParams x = fst s4"
    by (auto simp: generateParamsPrior_def bindE_Inr_iff Let_def)
  from locals_sum [OF assms(2)] assms(4) have "gp_hasSpatial l" by simp
  with rho have "for_loop [0..<nat nParticles] (rho_row L d l) ((fst s3, snd s3), [])
                   = Inr ((fst s4, snd s4), Rcout)"
    by (simp add: draw_rho_def)
  from rho_rows_loop [OF this] show ?thesis
    by (simp add: x)
qed



section \<open>generateParamsPrior and evalPrior: the transition block\<close>












section \<open>generateParamsPrior: what it returns, and the reinfection block\<close>

lemma generateParamsPrior_never_returns:
  "generateParamsPrior L this n = Inr x \<Longrightarrow> gp_returned x = None"
  by (auto simp: generateParamsPrior_def bindE_Inr_iff Let_def split_beta)

text \<open>
  C2. The claim asks for a returned matrix of \<open>nParticles\<close> rows. The function fills
  a local matrix and ends without returning it; the matrix has \<open>N\<close> rows, \<open>N\<close> being
  a name that the function does not declare. On the example with \<open>N = 1\<close>, a call for
  one particle fills the six cells of row \<open>0\<close> and returns no matrix, and a call for
  two particles writes outside the matrix.
\<close>

theorem generateParamsPrior_returns_no_matrix:
  "(\<exists>x. generateParamsPrior example_stdlib example_model 1 = Inr x
        \<and> gp_returned x = None
        \<and> nrows (gp_outParams x) = member_N example_model
        \<and> ncols (gp_outParams x) = 6
        \<and> map (cell (gp_outParams x) 0) [0, 1, 2, 3, 4, 5]
            = [Some (1 / 2), Some (5 / 4), Some (1 / 4), Some (1 / 4),
               Some (3 / 4), Some (3 / 4)])
   \<and> member_N example_model = 1
   \<and> generateParamsPrior example_stdlib example_model 2 = Inl IndexOutOfRange"
  by (simp add: gp_defs access_defs example_defs rho_while.simps eval_nat_numeral)

text \<open>
  C5. The claim asks that sampling read the entries \<open>0..nBetaRS-1\<close> of the
  reinfection priors, as \<open>evalPrior\<close> does. The reinfection loop reads them at the
  column index, \<open>nBeta..nBeta+nBetaRS-1\<close>. With one exposure covariate, one
  reinfection covariate and reinfection priors of length one, sampling reads entry
  \<open>1\<close>, outside the vectors, whereas \<open>evalPrior\<close> reads entry \<open>0\<close>; with priors of
  length two, sampling draws the betaRS column from mean \<open>7\<close> and precision \<open>4\<close>
  (entry \<open>1\<close>) whereas \<open>evalPrior\<close> evaluates it with mean \<open>5\<close> and precision \<open>2\<close>
  (entry \<open>0\<close>).
\<close>

theorem reinfection_draw_reads_shifted_index:
  "generateParamsPrior_locals example_reinfection_model
     = Inr \<lparr> gp_hasReinfection = True, gp_hasSpatial = True,
             gp_transitionMode = ''exponential'', gp_nBeta = 1, gp_nBetaRS = 1,
             gp_nRho = 2, gp_nTrans = 2, gp_nParams = 6 \<rparr>
   \<and> generateParamsPrior example_stdlib example_reinfection_model 1 = Inl IndexOutOfRange
   \<and> evalPrior_factors example_reinfection_model example_vector
       = Inr [dnorm 1 0 1, dnorm 2 5 (1 / 2), dbeta (1 / 4) 1 1, dbeta (1 / 4) 1 1,
              indicator True, dgamma 5 2 (1 / 8), dgamma 6 3 (1 / 9)]
   \<and> (\<exists>x. generateParamsPrior example_stdlib example_reinfection_model_long 1 = Inr x
          \<and> cell (gp_outParams x) 0 1 = Some (7 + (1 / 2) / 4))
   \<and> evalPrior_factors example_reinfection_model_long example_vector
       = Inr [dnorm 1 0 1, dnorm 2 5 (1 / 2), dbeta (1 / 4) 1 1, dbeta (1 / 4) 1 1,
              indicator True, dgamma 5 2 (1 / 8), dgamma 6 3 (1 / 9)]"
  by (simp add: gp_defs ep_defs access_defs example_defs example_reinfection_model_def
      example_reinfection_model_long_def example_vector_def rho_while.simps eval_nat_numeral)

section \<open>run_simulation\<close>

text \<open>
  C10. The claim asks that \<open>run_simulation\<close> change the result stores. It returns the
  object as it was: the result stores, the call counter and everything else are
  unchanged, for every parameter matrix.
\<close>

theorem run_simulation_changes_nothing:
  "run_simulation this params = this
   \<and> results_double (run_simulation this params) = results_double this
   \<and> results_complete (run_simulation this params) = results_complete this
   \<and> result_idx (run_simulation this params) = result_idx this
   \<and> ncalls (run_simulation this params) = ncalls this"
  by (simp add: run_simulation_def)

end
